theory Spec2Isabelle
  imports Complex_Main
begin

section \<open>Python values, errors and geometries\<close>

text \<open>
  The development embeds \<^verbatim>\<open>circuithelper/utils.py\<close>: \<^verbatim>\<open>parse_kmz_file\<close>,
  \<^verbatim>\<open>parse_kml_data\<close>, \<^verbatim>\<open>features_from_document\<close>, \<^verbatim>\<open>extract_coordinates\<close> and
  \<^verbatim>\<open>calculate_path_distance\<close>, and the part of \<^verbatim>\<open>CircuitPathEditView.post\<close>
  (\<^verbatim>\<open>views.py\<close>) that composes them.

  Every exception the source can raise is a value of \<open>error\<close>; a computation that may
  raise returns \<open>error + 'a\<close> with \<open>Inl\<close> for the exception. The coordinates of a
  document are finite floats, modelled by \<open>real\<close>; a projected coordinate and a
  distance are values of \<open>pyfloat\<close>, a finite float or one of \<^verbatim>\<open>inf\<close>, \<^verbatim>\<open>-inf\<close>
  and \<^verbatim>\<open>nan\<close>. Arithmetic on finite floats is exact: sums, the division of the mean
  and the square root of a segment length carry no rounding error of the floating-point
  unit.
\<close>

datatype error =
    BadZipFile | XMLSyntaxError | KMLParseError | GeometryError
  | KeyError | TypeError | AttributeError | ProjError

type_synonym bytes = string

text \<open>
  A coordinate tuple as shapely hands it out: \<open>(x, y)\<close> or \<open>(x, y, z)\<close>, that is
  (longitude, latitude[, altitude]). \<^verbatim>\<open>c[0]\<close> is the first and \<^verbatim>\<open>c[1]\<close> the second
  component.
\<close>

type_synonym coord = "real \<times> real \<times> real option"

text \<open>The shapely geometry objects, one constructor per \<^verbatim>\<open>geom_type\<close>. A polygon has
  an exterior ring and a list of interior rings.\<close>

datatype 'a geom =
    Point 'a 'a "'a option"
  | LineString "('a \<times> 'a \<times> 'a option) list"
  | LinearRing "('a \<times> 'a \<times> 'a option) list"
  | Polygon "('a \<times> 'a \<times> 'a option) list" "('a \<times> 'a \<times> 'a option) list list"
  | MultiPoint "'a geom list"
  | MultiLineString "'a geom list"
  | MultiPolygon "'a geom list"
  | GeometryCollection "'a geom list"

type_synonym geometry = "real geom"

text \<open>
  The Python values that flow through the functions. A dict is an association list in
  insertion order. \<open>PyGeom g\<close> stands for a value that \<^verbatim>\<open>shapely.geometry.shape\<close>
  accepts and turns into \<open>g\<close>: the geometry object of a placemark, or the GeoJSON
  geometry mapping that \<^verbatim>\<open>shapely.geometry.mapping\<close> builds. Every other value is
  rejected by \<^verbatim>\<open>shape\<close>.
\<close>

datatype pyval =
    PyNone
  | PyStr string
  | PyList "pyval list"
  | PyDict "(string \<times> pyval) list"
  | PyGeom geometry

text \<open>
  An entry of the parsed document (a fastkml Document, Folder or Placemark), seen the way
  the source sees it, through \<^verbatim>\<open>hasattr\<close> and \<^verbatim>\<open>getattr\<close>: each attribute is either
  missing (\<open>None\<close>) or holds a Python value; \<open>features_attr\<close> is the list that
  \<^verbatim>\<open>features()\<close> yields when the entry has that method.
\<close>

datatype entry =
  Entry (geometry_attr: "pyval option") (name_attr: "pyval option")
        (description_attr: "pyval option") (features_attr: "entry list option")

text \<open>
  An opened archive: its members in directory order, each with the outcome of
  decompressing it.
\<close>

type_synonym zip_archive = "(string \<times> (error + bytes)) list"

fun geom_type :: "geometry \<Rightarrow> string" where
  "geom_type (Point x y z) = ''Point''"
| "geom_type (LineString cs) = ''LineString''"
| "geom_type (LinearRing cs) = ''LinearRing''"
| "geom_type (Polygon ext holes) = ''Polygon''"
| "geom_type (MultiPoint gs) = ''MultiPoint''"
| "geom_type (MultiLineString gs) = ''MultiLineString''"
| "geom_type (MultiPolygon gs) = ''MultiPolygon''"
| "geom_type (GeometryCollection gs) = ''GeometryCollection''"

fun geoms :: "geometry \<Rightarrow> geometry list" where
  "geoms (MultiPoint gs) = gs"
| "geoms (MultiLineString gs) = gs"
| "geoms (MultiPolygon gs) = gs"
| "geoms (GeometryCollection gs) = gs"
| "geoms g = []"

definition startswith :: "string \<Rightarrow> string \<Rightarrow> bool" where
  "startswith s p = (take (length p) s = p)"

definition endswith :: "string \<Rightarrow> string \<Rightarrow> bool" where
  "endswith s p = (length p \<le> length s \<and> drop (length s - length p) s = p)"

text \<open>Python truth value testing. Geometry objects are taken to be true.\<close>

fun truthy :: "pyval \<Rightarrow> bool" where
  "truthy PyNone = False"
| "truthy (PyStr s) = (s \<noteq> [])"
| "truthy (PyList xs) = (xs \<noteq> [])"
| "truthy (PyDict kvs) = (kvs \<noteq> [])"
| "truthy (PyGeom g) = True"

fun shape :: "pyval \<Rightarrow> error + geometry" where
  "shape (PyGeom g) = Inr g"
| "shape v = Inl GeometryError"

definition mapping :: "geometry \<Rightarrow> pyval" where
  "mapping g = PyGeom g"

section \<open>Geometry extraction\<close>

text \<open>
  \<^verbatim>\<open>extract_coordinates\<close> (utils.py, lines 116 to 133). The branch taken is fixed by
  \<^verbatim>\<open>geom_type\<close>, so the function is written by cases on the constructor; the loop
  \<^verbatim>\<open>for geom in geometry.geoms: coords.extend(extract_coordinates(geom))\<close> is the
  left fold. Lemma \<open>extract_coordinates_dispatch\<close> below relates the cases to the
  string tests of the source.
\<close>

fun extract_coordinates :: "geometry \<Rightarrow> coord list" where
  "extract_coordinates (Point x y z) = [(x, y, None)]"
| "extract_coordinates (LineString cs) = cs"
| "extract_coordinates (LinearRing cs) = cs"
| "extract_coordinates (Polygon ext holes) = ext"
| "extract_coordinates (MultiPoint gs) =
     foldl (\<lambda>coords geom. coords @ extract_coordinates geom) [] gs"
| "extract_coordinates (MultiLineString gs) =
     foldl (\<lambda>coords geom. coords @ extract_coordinates geom) [] gs"
| "extract_coordinates (MultiPolygon gs) =
     foldl (\<lambda>coords geom. coords @ extract_coordinates geom) [] gs"
| "extract_coordinates (GeometryCollection gs) =
     foldl (\<lambda>coords geom. coords @ extract_coordinates geom) [] gs"

text \<open>\<^verbatim>\<open>getattr(obj, name, default)\<close>: the default is used only when the attribute is
  missing.\<close>

definition getattr :: "pyval option \<Rightarrow> pyval \<Rightarrow> pyval" where
  "getattr attr dflt = (case attr of None \<Rightarrow> dflt | Some v \<Rightarrow> v)"

text \<open>\<^verbatim>\<open>hasattr(feature, 'geometry') and feature.geometry\<close>.\<close>

definition has_geometry :: "entry \<Rightarrow> bool" where
  "has_geometry feature =
     (case geometry_attr feature of None \<Rightarrow> False | Some v \<Rightarrow> truthy v)"

definition feature_dict :: "entry \<Rightarrow> geometry \<Rightarrow> pyval" where
  "feature_dict feature geom =
     PyDict [(''type'', PyStr ''Feature''),
             (''geometry'', mapping geom),
             (''properties'',
                PyDict [(''name'', getattr (name_attr feature) (PyStr '''')),
                        (''description'', getattr (description_attr feature) (PyStr ''''))])]"

text \<open>The two lists that \<^verbatim>\<open>features_from_document\<close> mutates: \<^verbatim>\<open>features_list\<close> and
  \<^verbatim>\<open>coords_list\<close>.\<close>

type_synonym acc = "pyval list \<times> coord list"

text \<open>Lines 95 to 109: the geometry test and the two appends for one child.\<close>

definition append_feature :: "entry \<Rightarrow> acc \<Rightarrow> error + acc" where
  "append_feature feature st =
     (case geometry_attr feature of
        None \<Rightarrow> Inr st
      | Some v \<Rightarrow>
          if truthy v then
            (case shape v of
               Inl e \<Rightarrow> Inl e
             | Inr geom \<Rightarrow>
                 (let coords = extract_coordinates geom
                  in Inr (fst st @ [feature_dict feature geom], snd st @ coords)))
          else Inr st)"

text \<open>
  \<^verbatim>\<open>features_from_document\<close> (lines 89 to 113): \<open>features_loop\<close> is its
  \<^verbatim>\<open>for feature in document.features()\<close>. The argument \<^verbatim>\<open>document\<close> itself is only
  asked for its \<^verbatim>\<open>features\<close>.
\<close>

fun features_from_document :: "entry \<Rightarrow> acc \<Rightarrow> error + acc"
  and features_loop :: "entry list \<Rightarrow> acc \<Rightarrow> error + acc" where
  "features_from_document (Entry g n d fo) st =
     (case fo of None \<Rightarrow> Inr st | Some fs \<Rightarrow> features_loop fs st)"
| "features_loop [] st = Inr st"
| "features_loop (feature # rest) st =
     (case append_feature feature st of
        Inl e \<Rightarrow> Inl e
      | Inr st1 \<Rightarrow>
          (case (if features_attr feature \<noteq> None
                 then features_from_document feature st1 else Inr st1) of
             Inl e \<Rightarrow> Inl e
           | Inr st2 \<Rightarrow> features_loop rest st2))"

text \<open>Lines 66 and 67: \<^verbatim>\<open>for feature in k.features(): features_from_document(...)\<close>.\<close>

fun top_loop :: "entry list \<Rightarrow> acc \<Rightarrow> error + acc" where
  "top_loop [] st = Inr st"
| "top_loop (feature # rest) st =
     (case features_from_document feature st of
        Inl e \<Rightarrow> Inl e
      | Inr st1 \<Rightarrow> top_loop rest st1)"

text \<open>The builtin \<^verbatim>\<open>sum\<close>: a left fold from 0.\<close>

definition py_sum :: "real list \<Rightarrow> real" where
  "py_sum xs = foldl (+) 0 xs"

text \<open>Lines 76 to 80.\<close>

definition center_of :: "coord list \<Rightarrow> (real \<times> real) option" where
  "center_of all_coords =
     (if all_coords \<noteq> [] then
        (let avg_lat = py_sum (map (\<lambda>c. fst (snd c)) all_coords) / real (length all_coords);
             avg_lon = py_sum (map (\<lambda>c. fst c) all_coords) / real (length all_coords)
         in Some (avg_lat, avg_lon))
      else None)"

text \<open>
  \<^verbatim>\<open>parse_kml_data\<close> (lines 46 to 86). The two parsers are parameters:
  \<open>etree_fromstring\<close> is \<^verbatim>\<open>etree.fromstring\<close> (only its exception matters, the root is
  not used), \<open>kml_features\<close> is \<^verbatim>\<open>k.from_string(kml_data)\<close> followed by
  \<^verbatim>\<open>k.features()\<close>. Every \<open>Inl\<close> ends in the \<^verbatim>\<open>except Exception\<close> clause.
\<close>

definition parse_kml_data ::
  "(bytes \<Rightarrow> error + unit) \<Rightarrow> (bytes \<Rightarrow> error + entry list) \<Rightarrow> bytes
     \<Rightarrow> pyval option \<times> (real \<times> real) option" where
  "parse_kml_data etree_fromstring kml_features kml_data =
     (case etree_fromstring kml_data of
        Inl e \<Rightarrow> (None, None)
      | Inr xml_root \<Rightarrow>
          (case kml_features kml_data of
             Inl e \<Rightarrow> (None, None)
           | Inr tops \<Rightarrow>
               (case top_loop tops ([], []) of
                  Inl e \<Rightarrow> (None, None)
                | Inr (features, all_coords) \<Rightarrow>
                    (let geojson = PyDict [(''type'', PyStr ''FeatureCollection''),
                                           (''features'', PyList features)]
                     in (Some geojson, center_of all_coords)))))"

section \<open>The archive\<close>

definition namelist :: "zip_archive \<Rightarrow> string list" where
  "namelist kmz = map fst kmz"

text \<open>
  \<^verbatim>\<open>ZipFile.read(name)\<close> finds the member through the archive's name table, in which a
  later member replaces an earlier one of the same name.
\<close>

definition zip_read :: "zip_archive \<Rightarrow> string \<Rightarrow> error + bytes" where
  "zip_read kmz name =
     (case map_of (rev kmz) name of None \<Rightarrow> Inl KeyError | Some r \<Rightarrow> r)"

text \<open>Lines 28 to 32: the first name that ends in \<^verbatim>\<open>.kml\<close>.\<close>

fun find_kml :: "string list \<Rightarrow> string option" where
  "find_kml [] = None"
| "find_kml (name # rest) = (if endswith name ''.kml'' then Some name else find_kml rest)"

text \<open>
  \<^verbatim>\<open>parse_kmz_file\<close> (lines 12 to 43); \<open>zip_open\<close> is
  \<^verbatim>\<open>zipfile.ZipFile(BytesIO(kmz_file.read()))\<close>. \<^verbatim>\<open>if not kml_file\<close> holds for
  \<^verbatim>\<open>None\<close> and for the empty name.
\<close>

definition parse_kmz_file ::
  "(bytes \<Rightarrow> error + zip_archive) \<Rightarrow> (bytes \<Rightarrow> error + unit)
     \<Rightarrow> (bytes \<Rightarrow> error + entry list) \<Rightarrow> bytes
     \<Rightarrow> pyval option \<times> (real \<times> real) option" where
  "parse_kmz_file zip_open etree_fromstring kml_features data =
     (case zip_open data of
        Inl e \<Rightarrow> (None, None)
      | Inr kmz \<Rightarrow>
          (case find_kml (namelist kmz) of
             None \<Rightarrow> (None, None)
           | Some kml_file \<Rightarrow>
               if kml_file = '''' then (None, None)
               else (case zip_read kmz kml_file of
                       Inl e \<Rightarrow> (None, None)
                     | Inr kml_data \<Rightarrow>
                         parse_kml_data etree_fromstring kml_features kml_data)))"

section \<open>Path distance\<close>

text \<open>\<^verbatim>\<open>geojson_data.get('features', [])\<close>. A geometry mapping is a dict without that
  key; a value that is no dict has no \<^verbatim>\<open>get\<close>.\<close>

fun get_features :: "pyval \<Rightarrow> error + pyval" where
  "get_features (PyDict kvs) =
     Inr (case map_of kvs ''features'' of None \<Rightarrow> PyList [] | Some v \<Rightarrow> v)"
| "get_features (PyGeom g) = Inr (PyList [])"
| "get_features v = Inl AttributeError"

text \<open>What a \<^verbatim>\<open>for\<close> loop iterates over: the items of a list, the characters of a
  string, the keys of a dict.\<close>

fun py_iter :: "pyval \<Rightarrow> error + pyval list" where
  "py_iter (PyList xs) = Inr xs"
| "py_iter (PyStr s) = Inr (map (\<lambda>c. PyStr [c]) s)"
| "py_iter (PyDict kvs) = Inr (map (\<lambda>kv. PyStr (fst kv)) kvs)"
| "py_iter (PyGeom g) =
     Inr [PyStr ''type'',
          PyStr (if geom_type g = ''GeometryCollection'' then ''geometries'' else ''coordinates'')]"
| "py_iter PyNone = Inl TypeError"

text \<open>\<^verbatim>\<open>feature['geometry']\<close>.\<close>

fun get_item :: "pyval \<Rightarrow> string \<Rightarrow> error + pyval" where
  "get_item (PyDict kvs) k = (case map_of kvs k of None \<Rightarrow> Inl KeyError | Some v \<Rightarrow> Inr v)"
| "get_item (PyGeom g) k = Inl KeyError"
| "get_item v k = Inl TypeError"

text \<open>
  A Python float: a finite value, taken as an exact real, or one of the special values
  \<^verbatim>\<open>inf\<close>, \<^verbatim>\<open>-inf\<close> and \<^verbatim>\<open>nan\<close>. The operations below are the IEEE rules for
  the special values and exact arithmetic on the finite ones.
\<close>

datatype pyfloat = Fin real | PInf | NInf | NaN

text \<open>A projected coordinate tuple.\<close>

type_synonym pcoord = "pyfloat \<times> pyfloat \<times> pyfloat option"

fun fl_neg :: "pyfloat \<Rightarrow> pyfloat" where
  "fl_neg (Fin a) = Fin (- a)"
| "fl_neg PInf = NInf"
| "fl_neg NInf = PInf"
| "fl_neg NaN = NaN"

fun fl_add :: "pyfloat \<Rightarrow> pyfloat \<Rightarrow> pyfloat" where
  "fl_add (Fin a) (Fin b) = Fin (a + b)"
| "fl_add (Fin a) PInf = PInf"
| "fl_add (Fin a) NInf = NInf"
| "fl_add PInf (Fin b) = PInf"
| "fl_add NInf (Fin b) = NInf"
| "fl_add PInf PInf = PInf"
| "fl_add NInf NInf = NInf"
| "fl_add PInf NInf = NaN"
| "fl_add NInf PInf = NaN"
| "fl_add NaN y = NaN"
| "fl_add x NaN = NaN"

definition fl_sub :: "pyfloat \<Rightarrow> pyfloat \<Rightarrow> pyfloat" where
  "fl_sub x y = fl_add x (fl_neg y)"

fun fl_mul :: "pyfloat \<Rightarrow> pyfloat \<Rightarrow> pyfloat" where
  "fl_mul (Fin a) (Fin b) = Fin (a * b)"
| "fl_mul (Fin a) PInf = (if a = 0 then NaN else if 0 < a then PInf else NInf)"
| "fl_mul (Fin a) NInf = (if a = 0 then NaN else if 0 < a then NInf else PInf)"
| "fl_mul PInf (Fin b) = (if b = 0 then NaN else if 0 < b then PInf else NInf)"
| "fl_mul NInf (Fin b) = (if b = 0 then NaN else if 0 < b then NInf else PInf)"
| "fl_mul PInf PInf = PInf"
| "fl_mul NInf NInf = PInf"
| "fl_mul PInf NInf = NInf"
| "fl_mul NInf PInf = NInf"
| "fl_mul NaN y = NaN"
| "fl_mul x NaN = NaN"

fun fl_sqrt :: "pyfloat \<Rightarrow> pyfloat" where
  "fl_sqrt (Fin a) = (if a < 0 then NaN else Fin (sqrt a))"
| "fl_sqrt PInf = PInf"
| "fl_sqrt NInf = NaN"
| "fl_sqrt NaN = NaN"

text \<open>Division by a positive number (the source divides by 1000).\<close>

fun fl_div :: "pyfloat \<Rightarrow> real \<Rightarrow> pyfloat" where
  "fl_div (Fin a) r = Fin (a / r)"
| "fl_div x r = x"

text \<open>
  \<^verbatim>\<open>shapely.ops.transform(transformer.transform, geom)\<close>: the projection \<open>f\<close> is
  applied to every coordinate and the geometry is rebuilt with the same kind. \<open>f\<close> is a
  parameter, pyproj's transformer from EPSG:4326 to EPSG:3857 as the source builds it,
  with the default \<^verbatim>\<open>errcheck=False\<close>: for a coordinate it cannot project it raises
  nothing and returns \<^verbatim>\<open>inf\<close>, so such a result is \<open>Inr\<close> of a tuple that holds
  \<open>PInf\<close>. \<open>Inl\<close> is an exception of the call (an argument that is no number, for
  instance); an exception at any coordinate is an exception of the whole call.
\<close>

fun map_coords :: "(coord \<Rightarrow> error + pcoord) \<Rightarrow> coord list \<Rightarrow> error + pcoord list" where
  "map_coords f [] = Inr []"
| "map_coords f (c # cs) =
     (case f c of
        Inl e \<Rightarrow> Inl e
      | Inr c' \<Rightarrow> (case map_coords f cs of Inl e \<Rightarrow> Inl e | Inr cs' \<Rightarrow> Inr (c' # cs')))"

fun map_rings :: "(coord \<Rightarrow> error + pcoord) \<Rightarrow> coord list list \<Rightarrow> error + pcoord list list" where
  "map_rings f [] = Inr []"
| "map_rings f (r # rs) =
     (case map_coords f r of
        Inl e \<Rightarrow> Inl e
      | Inr r' \<Rightarrow> (case map_rings f rs of Inl e \<Rightarrow> Inl e | Inr rs' \<Rightarrow> Inr (r' # rs')))"

fun transform :: "(coord \<Rightarrow> error + pcoord) \<Rightarrow> geometry \<Rightarrow> error + pyfloat geom"
  and transform_parts ::
    "(coord \<Rightarrow> error + pcoord) \<Rightarrow> geometry list \<Rightarrow> error + pyfloat geom list" where
  "transform f (Point x y z) =
     (case f (x, y, z) of Inl e \<Rightarrow> Inl e | Inr (x', y', z') \<Rightarrow> Inr (Point x' y' z'))"
| "transform f (LineString cs) =
     (case map_coords f cs of Inl e \<Rightarrow> Inl e | Inr cs' \<Rightarrow> Inr (LineString cs'))"
| "transform f (LinearRing cs) =
     (case map_coords f cs of Inl e \<Rightarrow> Inl e | Inr cs' \<Rightarrow> Inr (LinearRing cs'))"
| "transform f (Polygon ext holes) =
     (case map_coords f ext of
        Inl e \<Rightarrow> Inl e
      | Inr ext' \<Rightarrow>
          (case map_rings f holes of Inl e \<Rightarrow> Inl e | Inr holes' \<Rightarrow> Inr (Polygon ext' holes')))"
| "transform f (MultiPoint gs) =
     (case transform_parts f gs of Inl e \<Rightarrow> Inl e | Inr gs' \<Rightarrow> Inr (MultiPoint gs'))"
| "transform f (MultiLineString gs) =
     (case transform_parts f gs of Inl e \<Rightarrow> Inl e | Inr gs' \<Rightarrow> Inr (MultiLineString gs'))"
| "transform f (MultiPolygon gs) =
     (case transform_parts f gs of Inl e \<Rightarrow> Inl e | Inr gs' \<Rightarrow> Inr (MultiPolygon gs'))"
| "transform f (GeometryCollection gs) =
     (case transform_parts f gs of Inl e \<Rightarrow> Inl e | Inr gs' \<Rightarrow> Inr (GeometryCollection gs'))"
| "transform_parts f [] = Inr []"
| "transform_parts f (g # gs) =
     (case transform f g of
        Inl e \<Rightarrow> Inl e
      | Inr g' \<Rightarrow> (case transform_parts f gs of Inl e \<Rightarrow> Inl e | Inr gs' \<Rightarrow> Inr (g' # gs')))"

text \<open>The attribute \<^verbatim>\<open>length\<close> of a shapely geometry: the planar length of its lines
  and rings, each segment \<open>sqrt (dx * dx + dy * dy)\<close>, zero for points.\<close>

definition segment_length :: "pcoord \<Rightarrow> pcoord \<Rightarrow> pyfloat" where
  "segment_length p q =
     (let dx = fl_sub (fst q) (fst p); dy = fl_sub (fst (snd q)) (fst (snd p))
      in fl_sqrt (fl_add (fl_mul dx dx) (fl_mul dy dy)))"

fun path_length :: "pcoord list \<Rightarrow> pyfloat" where
  "path_length (p # q # cs) = fl_add (segment_length p q) (path_length (q # cs))"
| "path_length cs = Fin 0"

fun rings_length :: "pcoord list list \<Rightarrow> pyfloat" where
  "rings_length [] = Fin 0"
| "rings_length (r # rs) = fl_add (path_length r) (rings_length rs)"

fun geom_length :: "pyfloat geom \<Rightarrow> pyfloat"
  and parts_length :: "pyfloat geom list \<Rightarrow> pyfloat" where
  "geom_length (Point x y z) = Fin 0"
| "geom_length (LineString cs) = path_length cs"
| "geom_length (LinearRing cs) = path_length cs"
| "geom_length (Polygon ext holes) = fl_add (path_length ext) (rings_length holes)"
| "geom_length (MultiPoint gs) = parts_length gs"
| "geom_length (MultiLineString gs) = parts_length gs"
| "geom_length (MultiPolygon gs) = parts_length gs"
| "geom_length (GeometryCollection gs) = parts_length gs"
| "parts_length [] = Fin 0"
| "parts_length (g # gs) = fl_add (geom_length g) (parts_length gs)"

text \<open>The builtin \<^verbatim>\<open>round(x, ndigits)\<close>: a finite value goes to the nearest multiple
  of \<open>10 ^ (- ndigits)\<close>, a tie to the even one; a special value is returned as it is.\<close>

definition round_half_even :: "real \<Rightarrow> int" where
  "round_half_even y =
     (let f = \<lfloor>y\<rfloor>; d = y - of_int f
      in if d < 1 / 2 then f
         else if 1 / 2 < d then f + 1
         else if even f then f else f + 1)"

fun py_round :: "pyfloat \<Rightarrow> nat \<Rightarrow> pyfloat" where
  "py_round (Fin x) ndigits = Fin (of_int (round_half_even (x * 10 ^ ndigits)) / 10 ^ ndigits)"
| "py_round x ndigits = x"

text \<open>Lines 159 to 165: the loop over the features, with the running total.\<close>

fun distance_loop ::
  "(coord \<Rightarrow> error + pcoord) \<Rightarrow> pyval list \<Rightarrow> pyfloat \<Rightarrow> error + pyfloat" where
  "distance_loop proj [] total_distance = Inr total_distance"
| "distance_loop proj (feature # rest) total_distance =
     (case get_item feature ''geometry'' of
        Inl e \<Rightarrow> Inl e
      | Inr gv \<Rightarrow>
          (case shape gv of
             Inl e \<Rightarrow> Inl e
           | Inr geom \<Rightarrow>
               if geom_type geom \<in> set [''LineString'', ''MultiLineString''] then
                 (case transform proj geom of
                    Inl e \<Rightarrow> Inl e
                  | Inr projected_geom \<Rightarrow>
                      distance_loop proj rest
                        (fl_add total_distance (geom_length projected_geom)))
               else distance_loop proj rest total_distance))"

text \<open>
  \<^verbatim>\<open>calculate_path_distance\<close> (lines 136 to 172), for a transformer that has been
  built (the imports and the two \<^verbatim>\<open>pyproj.CRS\<close> calls are taken to succeed).
\<close>

definition calculate_path_distance ::
  "(coord \<Rightarrow> error + pcoord) \<Rightarrow> pyval \<Rightarrow> pyfloat option" where
  "calculate_path_distance proj geojson_data =
     (case get_features geojson_data of
        Inl e \<Rightarrow> None
      | Inr fv \<Rightarrow>
          (case py_iter fv of
             Inl e \<Rightarrow> None
           | Inr feats \<Rightarrow>
               (case distance_loop proj feats (Fin 0) of
                  Inl e \<Rightarrow> None
                | Inr total_distance \<Rightarrow> Some (py_round (fl_div total_distance 1000) 2))))"

section \<open>The upload view\<close>

text \<open>The fields of \<^verbatim>\<open>CircuitPath\<close> (models.py) that the view fills in.\<close>

record circuit_path =
  geojson_data :: "pyval option"
  map_center_lat :: "real option"
  map_center_lon :: "real option"
  path_distance_km :: "pyfloat option"

text \<open>\<^verbatim>\<open>CircuitPathEditView.post\<close> (views.py, lines 111 to 123), for a valid form
  with an uploaded file. \<^verbatim>\<open>if distance:\<close> holds for every float but zero.\<close>

definition post_kmz ::
  "(bytes \<Rightarrow> error + zip_archive) \<Rightarrow> (bytes \<Rightarrow> error + unit)
     \<Rightarrow> (bytes \<Rightarrow> error + entry list) \<Rightarrow> (coord \<Rightarrow> error + pcoord)
     \<Rightarrow> circuit_path \<Rightarrow> bytes \<Rightarrow> circuit_path" where
  "post_kmz zip_open etree_fromstring kml_features proj instance kmz_file =
     (case parse_kmz_file zip_open etree_fromstring kml_features kmz_file of
        (Some gj, Some center_coords) \<Rightarrow>
          if truthy gj then
            (let inst1 = instance\<lparr>geojson_data := Some gj,
                                   map_center_lat := Some (fst center_coords),
                                   map_center_lon := Some (snd center_coords)\<rparr>
             in case calculate_path_distance proj gj of
                  None \<Rightarrow> inst1
                | Some distance \<Rightarrow>
                    if distance \<noteq> Fin 0 then inst1\<lparr>path_distance_km := Some distance\<rparr>
                    else inst1)
          else instance
      | _ \<Rightarrow> instance)"

section \<open>Reference functions for the statements\<close>

text \<open>The entries strictly below an entry, in document order (pre-order).\<close>

fun descendants :: "entry \<Rightarrow> entry list"
  and descendants_list :: "entry list \<Rightarrow> entry list" where
  "descendants (Entry g n d fo) = (case fo of None \<Rightarrow> [] | Some fs \<Rightarrow> descendants_list fs)"
| "descendants_list [] = []"
| "descendants_list (e # es) = e # descendants e @ descendants_list es"

text \<open>Every entry of the document, the top-level ones included, in document order.\<close>

definition whole_tree :: "entry list \<Rightarrow> entry list" where
  "whole_tree tops = concat (map (\<lambda>t. t # descendants t) tops)"

text \<open>The entries below the top-level ones.\<close>

definition visited :: "entry list \<Rightarrow> entry list" where
  "visited tops = concat (map descendants tops)"

definition shape_ok :: "entry \<Rightarrow> bool" where
  "shape_ok e =
     (case geometry_attr e of
        None \<Rightarrow> True
      | Some v \<Rightarrow> if truthy v then (case shape v of Inl err \<Rightarrow> False | Inr g \<Rightarrow> True) else True)"

definition entry_features :: "entry \<Rightarrow> pyval list" where
  "entry_features e =
     (case geometry_attr e of Some (PyGeom g) \<Rightarrow> [feature_dict e g] | _ \<Rightarrow> [])"

definition entry_coords :: "entry \<Rightarrow> coord list" where
  "entry_coords e =
     (case geometry_attr e of Some (PyGeom g) \<Rightarrow> extract_coordinates g | _ \<Rightarrow> [])"

definition mean :: "real list \<Rightarrow> real" where
  "mean xs = sum_list xs / real (length xs)"

definition lon :: "coord \<Rightarrow> real" where
  "lon c = fst c"

definition lat :: "coord \<Rightarrow> real" where
  "lat c = fst (snd c)"

text \<open>What a successful traversal gathers: the features and the coordinate pool.\<close>

definition collected_features :: "entry list \<Rightarrow> pyval list" where
  "collected_features tops = concat (map entry_features (visited tops))"

definition coordinate_pool :: "entry list \<Rightarrow> coord list" where
  "coordinate_pool tops = concat (map entry_coords (visited tops))"

definition feature_collection :: "pyval list \<Rightarrow> pyval" where
  "feature_collection fs =
     PyDict [(''type'', PyStr ''FeatureCollection''), (''features'', PyList fs)]"

definition is_kml_name :: "string \<Rightarrow> bool" where
  "is_kml_name name = endswith name ''.kml''"

text \<open>The linear kinds, the features a mapping holds and their geometries.\<close>

definition is_linear :: "geometry \<Rightarrow> bool" where
  "is_linear g = (geom_type g = ''LineString'' \<or> geom_type g = ''MultiLineString'')"

definition features_of :: "pyval \<Rightarrow> error + pyval list" where
  "features_of gj = (case get_features gj of Inl e \<Rightarrow> Inl e | Inr fv \<Rightarrow> py_iter fv)"










section \<open>Coordinate extraction by geometry kind\<close>

lemma foldl_extend: "foldl (\<lambda>acc x. acc @ f x) a xs = a @ concat (map f xs)"
  by (induction xs arbitrary: a) simp_all

text \<open>The constructor cases of \<open>extract_coordinates\<close> are the branches of the source's
  chain of tests on \<^verbatim>\<open>geom_type\<close>.\<close>

lemma extract_coordinates_dispatch:
  "extract_coordinates g =
     (if geom_type g = ''Point'' then (case g of Point x y z \<Rightarrow> [(x, y, None)] | _ \<Rightarrow> [])
      else if geom_type g \<in> set [''LineString'', ''LinearRing'']
        then (case g of LineString cs \<Rightarrow> cs | LinearRing cs \<Rightarrow> cs | _ \<Rightarrow> [])
      else if geom_type g = ''Polygon'' then (case g of Polygon ext holes \<Rightarrow> ext | _ \<Rightarrow> [])
      else if startswith (geom_type g) ''Multi'' \<or> geom_type g = ''GeometryCollection''
        then concat (map extract_coordinates (geoms g))
      else [])"
  by (cases g) (simp_all add: startswith_def foldl_extend)

text \<open>
  Claim C2. \<open>extract_coordinates\<close> returns the single pair \<open>(x, y)\<close> for a Point, all
  vertices in order for a LineString or a LinearRing, the vertices of the exterior ring
  only for a Polygon (the interior rings do not occur in the result), and for each of the
  multi-part kinds and for a GeometryCollection the concatenation, in child order, of the
  coordinates extracted recursively from the children.
\<close>

theorem extract_coordinates_by_kind:
  "extract_coordinates (Point x y z) = [(x, y, None)]
   \<and> extract_coordinates (LineString cs) = cs
   \<and> extract_coordinates (LinearRing cs) = cs
   \<and> extract_coordinates (Polygon ext holes) = ext
   \<and> extract_coordinates (MultiPoint gs) = concat (map extract_coordinates gs)
   \<and> extract_coordinates (MultiLineString gs) = concat (map extract_coordinates gs)
   \<and> extract_coordinates (MultiPolygon gs) = concat (map extract_coordinates gs)
   \<and> extract_coordinates (GeometryCollection gs) = concat (map extract_coordinates gs)"
  by (simp add: foldl_extend)

section \<open>The traversal\<close>

text \<open>One child either fails in \<^verbatim>\<open>shape\<close> or adds its feature and its coordinates.\<close>

lemma append_feature_char:
  "append_feature e st =
     (if shape_ok e then Inr (fst st @ entry_features e, snd st @ entry_coords e)
      else Inl GeometryError)"
proof (cases "geometry_attr e")
  case None
  then show ?thesis
    by (simp add: append_feature_def shape_ok_def entry_features_def entry_coords_def)
next
  case (Some v)
  then show ?thesis
    by (cases v)
       (simp_all add: append_feature_def shape_ok_def entry_features_def entry_coords_def)
qed

text \<open>The recursion visits the entries below its argument in document order, and stops
  with the exception at the first geometry that \<^verbatim>\<open>shape\<close> rejects.\<close>

lemma traversal_char:
  "features_from_document e st =
     (if list_all shape_ok (descendants e)
      then Inr (fst st @ concat (map entry_features (descendants e)),
                snd st @ concat (map entry_coords (descendants e)))
      else Inl GeometryError)"
  "features_loop es st =
     (if list_all shape_ok (descendants_list es)
      then Inr (fst st @ concat (map entry_features (descendants_list es)),
                snd st @ concat (map entry_coords (descendants_list es)))
      else Inl GeometryError)"
proof (induction e st and es st rule: features_from_document_features_loop.induct)
  case (1 g n d fo st)
  then show ?case by (cases fo) simp_all
next
  case (2 st)
  then show ?case by simp
next
  case (3 feature rest st)
  show ?case
  proof (cases "shape_ok feature")
    case False
    then show ?thesis by (simp add: append_feature_char)
  next
    case ok: True
    let ?st1 = "(fst st @ entry_features feature, snd st @ entry_coords feature)"
    have a: "append_feature feature st = Inr ?st1"
      using ok by (simp add: append_feature_char)
    have d: "features_attr feature = None \<Longrightarrow> descendants feature = []"
      by (cases feature) simp
    show ?thesis
    proof (cases "features_attr feature = None")
      case True
      with 3(2)[OF a] a ok d show ?thesis by simp
    next
      case has: False
      show ?thesis
      proof (cases "list_all shape_ok (descendants feature)")
        case False
        with 3(1)[OF a has] a ok has show ?thesis by simp
      next
        case True
        let ?st2 = "(fst ?st1 @ concat (map entry_features (descendants feature)),
                     snd ?st1 @ concat (map entry_coords (descendants feature)))"
        have b: "(if features_attr feature \<noteq> None
                  then features_from_document feature ?st1 else Inr ?st1) = Inr ?st2"
          using 3(1)[OF a has] True has by simp
        from 3(2)[OF a b] a b ok True show ?thesis by simp
      qed
    qed
  qed
qed

lemma top_loop_char:
  "top_loop tops st =
     (if list_all shape_ok (visited tops)
      then Inr (fst st @ collected_features tops, snd st @ coordinate_pool tops)
      else Inl GeometryError)"
  by (induction tops arbitrary: st)
     (simp_all add: traversal_char visited_def collected_features_def coordinate_pool_def)

text \<open>\<^verbatim>\<open>parse_kml_data\<close> in closed form: the features and the pool come from the
  entries below the top-level ones.\<close>

lemma parse_kml_data_char:
  "parse_kml_data E K d =
     (case E d of
        Inl e \<Rightarrow> (None, None)
      | Inr u \<Rightarrow>
          (case K d of
             Inl e \<Rightarrow> (None, None)
           | Inr tops \<Rightarrow>
               if list_all shape_ok (visited tops)
               then (Some (feature_collection (collected_features tops)),
                     center_of (coordinate_pool tops))
               else (None, None)))"
  by (simp add: parse_kml_data_def top_loop_char feature_collection_def
           split: sum.splits)

lemma entry_features_length:
  "shape_ok e \<Longrightarrow> length (entry_features e) = (if has_geometry e then 1 else 0)"
proof (cases "geometry_attr e")
  case None
  then show ?thesis by (simp add: entry_features_def has_geometry_def)
next
  case (Some v)
  assume "shape_ok e"
  with Some show ?thesis
    by (cases v) (auto simp: entry_features_def has_geometry_def shape_ok_def split: if_splits)
qed

text \<open>Below the top-level entries, each entry with a geometry gives exactly one feature.\<close>

lemma collected_features_length:
  "list_all shape_ok (visited tops)
     \<Longrightarrow> length (collected_features tops) = length (filter has_geometry (visited tops))"
proof -
  have "list_all shape_ok es
          \<Longrightarrow> length (concat (map entry_features es)) = length (filter has_geometry es)" for es
    by (induction es) (simp_all add: entry_features_length)
  then show "list_all shape_ok (visited tops)
     \<Longrightarrow> length (collected_features tops) = length (filter has_geometry (visited tops))"
    by (simp add: collected_features_def)
qed

text \<open>The geometry, the name and the description of the argument are not read.\<close>

lemma document_attributes_not_read:
  "features_from_document (Entry g n d fo) st = features_from_document (Entry g' n' d' fo) st"
  by simp

text \<open>
  Claim C1. The claim says that the FeatureCollection holds one Feature for every entry
  of the tree that carries a geometry, every top-level entry included. The code asks a
  top-level entry only for its children: \<^verbatim>\<open>parse_kml_data\<close> passes it to
  \<^verbatim>\<open>features_from_document\<close> as \<^verbatim>\<open>document\<close>, and the geometry test is made on the
  entries that \<^verbatim>\<open>document.features()\<close> yields. A placemark that stands at the top
  level, with a Point geometry, is an entry of the tree with a geometry, and the parse
  succeeds with no feature and no center.
\<close>

theorem top_level_placemark_is_dropped:
  "has_geometry (Entry (Some (PyGeom (Point 1 2 None))) (Some (PyStr ''P'')) (Some (PyStr ''d'')) None)
   \<and> whole_tree [Entry (Some (PyGeom (Point 1 2 None))) (Some (PyStr ''P'')) (Some (PyStr ''d'')) None]
       = [Entry (Some (PyGeom (Point 1 2 None))) (Some (PyStr ''P'')) (Some (PyStr ''d'')) None]
   \<and> parse_kml_data (\<lambda>b. Inr ())
        (\<lambda>b. Inr [Entry (Some (PyGeom (Point 1 2 None))) (Some (PyStr ''P'')) (Some (PyStr ''d'')) None])
        ''<kml><Placemark/></kml>''
       = (Some (PyDict [(''type'', PyStr ''FeatureCollection''), (''features'', PyList [])]), None)"
  by (simp add: has_geometry_def whole_tree_def parse_kml_data_def center_of_def)

section \<open>Feature properties\<close>

lemma feature_properties:
  "feature_dict e g =
     PyDict [(''type'', PyStr ''Feature''), (''geometry'', PyGeom g),
             (''properties'',
                PyDict [(''name'', case name_attr e of None \<Rightarrow> PyStr [] | Some v \<Rightarrow> v),
                        (''description'',
                           case description_attr e of None \<Rightarrow> PyStr [] | Some v \<Rightarrow> v)])]"
  by (simp add: feature_dict_def mapping_def getattr_def)

text \<open>
  Claim C9. The claim says that \<^verbatim>\<open>name\<close> and \<^verbatim>\<open>description\<close> of every Feature are
  strings, the empty string when the placemark has no such text. The default of
  \<^verbatim>\<open>getattr\<close> is used only for an object without the attribute; a placemark whose
  attributes \<^verbatim>\<open>name\<close> and \<^verbatim>\<open>description\<close> exist and hold \<^verbatim>\<open>None\<close> (what the
  parser stores for a missing element) gives a Feature whose two properties are
  \<^verbatim>\<open>None\<close>.
\<close>

theorem absent_name_text_is_none:
  "parse_kml_data (\<lambda>b. Inr ())
     (\<lambda>b. Inr [Entry None (Some (PyStr ''Doc'')) (Some PyNone)
                 (Some [Entry (Some (PyGeom (Point 1 2 None))) (Some PyNone) (Some PyNone) None])])
     ''<kml><Document><Placemark/></Document></kml>''
   = (Some (PyDict [(''type'', PyStr ''FeatureCollection''),
                    (''features'',
                     PyList [PyDict [(''type'', PyStr ''Feature''),
                                     (''geometry'', PyGeom (Point 1 2 None)),
                                     (''properties'',
                                      PyDict [(''name'', PyNone), (''description'', PyNone)])]])]),
      Some (2, 1))"
  by (simp add: parse_kml_data_def append_feature_def feature_dict_def mapping_def getattr_def
        center_of_def py_sum_def)

section \<open>The center point\<close>

lemma py_sum_eq: "py_sum xs = sum_list xs"
proof -
  have "foldl (+) a xs = a + sum_list xs" for a :: real
    by (induction xs arbitrary: a) simp_all
  then show ?thesis by (simp add: py_sum_def)
qed

lemma center_of_mean:
  "center_of cs = (if cs = [] then None else Some (mean (map lat cs), mean (map lon cs)))"
  by (simp add: center_of_def py_sum_eq mean_def lat_def [abs_def] lon_def [abs_def])

text \<open>
  Claim C3. On a successful parse the returned center is absent when the coordinate pool
  is empty, and otherwise it is the pair (mean of the latitudes, mean of the longitudes),
  each mean taken over the whole pool: the stored pairs are (lon, lat), the returned pair
  is (lat, lon).
\<close>

theorem center_is_mean_lat_lon:
  assumes "parse_kml_data E K d = (Some gj, c)" and "K d = Inr tops"
  shows "c = (if coordinate_pool tops = [] then None
              else Some (mean (map lat (coordinate_pool tops)),
                         mean (map lon (coordinate_pool tops))))"
  using assms by (simp add: parse_kml_data_char center_of_mean split: sum.splits if_splits)

text \<open>A document with a LineString of two vertices and a Point: the pool has three
  pairs, the center is (5, 4).\<close>

theorem center_is_mean_lat_lon_witness:
  "parse_kml_data (\<lambda>b. Inr ())
     (\<lambda>b. Inr [Entry None (Some (PyStr ''Doc'')) None
                 (Some [Entry (Some (PyGeom (LineString [(2, 4, Some 0), (4, 8, Some 0)])))
                          (Some (PyStr ''Route'')) None None,
                        Entry (Some (PyGeom (Point 6 3 None))) None None None])])
     ''<kml/>''
   = (Some (PyDict [(''type'', PyStr ''FeatureCollection''),
                    (''features'',
                     PyList [PyDict [(''type'', PyStr ''Feature''),
                                     (''geometry'', PyGeom (LineString [(2, 4, Some 0), (4, 8, Some 0)])),
                                     (''properties'',
                                      PyDict [(''name'', PyStr ''Route''), (''description'', PyStr [])])],
                             PyDict [(''type'', PyStr ''Feature''),
                                     (''geometry'', PyGeom (Point 6 3 None)),
                                     (''properties'',
                                      PyDict [(''name'', PyStr []), (''description'', PyStr [])])]])]),
      Some (5, 4))"
proof -
  let ?E = "\<lambda>b::bytes. (Inr () :: error + unit)"
  let ?tops = "[Entry None (Some (PyStr ''Doc'')) None
                 (Some [Entry (Some (PyGeom (LineString [(2, 4, Some 0), (4, 8, Some 0)])))
                          (Some (PyStr ''Route'')) None None,
                        Entry (Some (PyGeom (Point 6 3 None))) None None None])]"
  let ?K = "\<lambda>b::bytes. (Inr ?tops :: error + entry list)"
  let ?gj = "PyDict [(''type'', PyStr ''FeatureCollection''),
                    (''features'',
                     PyList [PyDict [(''type'', PyStr ''Feature''),
                                     (''geometry'', PyGeom (LineString [(2, 4, Some 0), (4, 8, Some 0)])),
                                     (''properties'',
                                      PyDict [(''name'', PyStr ''Route''), (''description'', PyStr [])])],
                             PyDict [(''type'', PyStr ''Feature''),
                                     (''geometry'', PyGeom (Point 6 3 None)),
                                     (''properties'',
                                      PyDict [(''name'', PyStr []), (''description'', PyStr [])])]])]"
  let ?r = "parse_kml_data ?E ?K ''<kml/>''"
  have p: "?r = (Some ?gj, snd ?r)"
    by (simp add: parse_kml_data_def append_feature_def feature_dict_def mapping_def getattr_def)
  have pool: "coordinate_pool ?tops = [(2, 4, Some 0), (4, 8, Some 0), (6, 3, None)]"
    by (simp add: coordinate_pool_def visited_def entry_coords_def)
  have "snd ?r = Some (5, 4)"
    using center_is_mean_lat_lon [of ?E ?K "''<kml/>''" ?gj "snd ?r" ?tops, OF p]
    by (simp add: pool mean_def lat_def lon_def)
  with p show ?thesis by simp
qed

section \<open>Failure of the parse\<close>

text \<open>
  Claim C5. Whenever the parse raises, in \<^verbatim>\<open>etree.fromstring\<close>, in the KML parser
  or during the traversal (a geometry somewhere below a top-level entry that
  \<^verbatim>\<open>shape\<close> rejects), \<^verbatim>\<open>parse_kml_data\<close> returns \<^verbatim>\<open>(None, None)\<close>: the
  features gathered before the exception are not returned.
\<close>

theorem parse_error_gives_no_partial_result:
  assumes "E d = Inl e \<or> K d = Inl e
           \<or> (K d = Inr tops \<and> top_loop tops ([], []) = Inl e)
           \<or> (K d = Inr tops \<and> x \<in> set (visited tops) \<and> \<not> shape_ok x)"
  shows "parse_kml_data E K d = (None, None)"
proof -
  have "K d = Inr tops \<and> x \<in> set (visited tops) \<and> \<not> shape_ok x
          \<Longrightarrow> \<not> list_all shape_ok (visited tops)"
    by (auto simp: list_all_iff)
  with assms show ?thesis
    by (auto simp: parse_kml_data_def top_loop_char split: sum.splits)
qed

text \<open>A document whose first placemark is well formed and whose second is not: the
  traversal raises after it has appended the first feature.\<close>

theorem parse_error_gives_no_partial_result_witness:
  "top_loop [Entry None None None
               (Some [Entry (Some (PyGeom (Point 1 2 None))) (Some (PyStr ''a'')) None None,
                      Entry (Some (PyStr ''broken'')) (Some (PyStr ''b'')) None None])]
            ([], []) = Inl GeometryError
   \<and> parse_kml_data (\<lambda>b. Inr ())
        (\<lambda>b. Inr [Entry None None None
               (Some [Entry (Some (PyGeom (Point 1 2 None))) (Some (PyStr ''a'')) None None,
                      Entry (Some (PyStr ''broken'')) (Some (PyStr ''b'')) None None])])
        ''<kml/>'' = (None, None)"
proof -
  let ?tops = "[Entry None None None
               (Some [Entry (Some (PyGeom (Point 1 2 None))) (Some (PyStr ''a'')) None None,
                      Entry (Some (PyStr ''broken'')) (Some (PyStr ''b'')) None None])]"
  have l: "top_loop ?tops ([], []) = Inl GeometryError"
    by (simp add: append_feature_def)
  from parse_error_gives_no_partial_result
         [of "\<lambda>b. Inr ()" "''<kml/>''" GeometryError "\<lambda>b. Inr ?tops" ?tops
             "Entry (Some (PyStr ''broken'')) (Some (PyStr ''b'')) None None"] l
  show ?thesis by simp
qed

section \<open>Selecting the member of the archive\<close>

lemma find_kml_None: "(find_kml names = None) = (filter is_kml_name names = [])"
  by (induction names) (simp_all add: is_kml_name_def)

lemma find_kml_first:
  "filter is_kml_name pre = [] \<Longrightarrow> is_kml_name name \<Longrightarrow> find_kml (pre @ name # post) = Some name"
  by (induction pre) (simp_all add: is_kml_name_def split: if_splits)

lemma is_kml_name_nonempty: "is_kml_name name \<Longrightarrow> name \<noteq> []"
  by (auto simp: is_kml_name_def endswith_def)

lemma zip_read_unique:
  "name \<notin> set (map fst post) \<Longrightarrow> zip_read (pre @ (name, content) # post) name = content"
proof -
  assume "name \<notin> set (map fst post)"
  then have "map_of (rev post) name = None"
    by (simp add: map_of_eq_None_iff)
  then show ?thesis
    by (simp add: zip_read_def map_add_def)
qed

text \<open>
  Claim C6. When the input is not a valid archive, or is a valid archive none of whose
  member names ends in \<^verbatim>\<open>.kml\<close>, \<^verbatim>\<open>parse_kmz_file\<close> returns \<^verbatim>\<open>(None, None)\<close>;
  it returns a value, so nothing is raised to the caller.
\<close>

theorem no_archive_or_no_kml_gives_absence:
  assumes "Z d = Inl e \<or> (Z d = Inr kmz \<and> filter is_kml_name (namelist kmz) = [])"
  shows "parse_kmz_file Z E K d = (None, None)"
  using assms by (auto simp: parse_kmz_file_def find_kml_None [symmetric])

text \<open>The two inputs of the repository's tests: bytes that are no archive, and an
  archive that holds only \<^verbatim>\<open>other_file.txt\<close>.\<close>

theorem no_archive_or_no_kml_gives_absence_witness:
  "parse_kmz_file (\<lambda>b. Inl BadZipFile) (\<lambda>b. Inr ()) (\<lambda>b. Inr []) ''This is not a KMZ file''
     = (None, None)
   \<and> parse_kmz_file (\<lambda>b. Inr [(''other_file.txt'', Inr ''Not a KML file'')])
        (\<lambda>b. Inr ()) (\<lambda>b. Inr []) ''PK'' = (None, None)"
proof -
  have a: "parse_kmz_file (\<lambda>b. Inl BadZipFile) (\<lambda>b. Inr ()) (\<lambda>b. Inr [])
             ''This is not a KMZ file'' = (None, None)"
    using no_archive_or_no_kml_gives_absence
            [of "\<lambda>b. Inl BadZipFile" "''This is not a KMZ file''" BadZipFile] by simp
  have b: "parse_kmz_file (\<lambda>b. Inr [(''other_file.txt'', Inr ''Not a KML file'')])
             (\<lambda>b. Inr ()) (\<lambda>b. Inr []) ''PK'' = (None, None)"
    using no_archive_or_no_kml_gives_absence
            [of "\<lambda>b. Inr [(''other_file.txt'', Inr ''Not a KML file'')]" "''PK''" _
                "[(''other_file.txt'', Inr ''Not a KML file'')]"]
    by (simp add: namelist_def is_kml_name_def endswith_def)
  from a b show ?thesis by simp
qed

text \<open>
  Claim C8, as stated, fails for an archive with two members of the same name
  \<^verbatim>\<open>doc.kml\<close>: the loop selects the name at its first occurrence, and
  \<^verbatim>\<open>kmz.read(kml_file)\<close> reads the member that the name table holds for that name, the
  last one. The first member's bytes \<^verbatim>\<open>A\<close> hold a placemark; the result is the parse of
  the second member's bytes \<^verbatim>\<open>B\<close>, an empty collection.
\<close>

theorem duplicate_name_reads_last_member:
  "find_kml (namelist [(''doc.kml'', Inr ''A''), (''doc.kml'', Inr ''B'')]) = Some ''doc.kml''
   \<and> parse_kmz_file (\<lambda>b. Inr [(''doc.kml'', Inr ''A''), (''doc.kml'', Inr ''B'')]) (\<lambda>b. Inr ())
        (\<lambda>b. if b = ''A''
              then Inr [Entry None None None
                          (Some [Entry (Some (PyGeom (Point 1 2 None))) None None None])]
              else Inr [])
        ''PK''
       = (Some (PyDict [(''type'', PyStr ''FeatureCollection''), (''features'', PyList [])]), None)
   \<and> parse_kml_data (\<lambda>b. Inr ())
        (\<lambda>b. if b = ''A''
              then Inr [Entry None None None
                          (Some [Entry (Some (PyGeom (Point 1 2 None))) None None None])]
              else Inr [])
        ''A''
       = (Some (PyDict [(''type'', PyStr ''FeatureCollection''),
                        (''features'',
                         PyList [PyDict [(''type'', PyStr ''Feature''),
                                         (''geometry'', PyGeom (Point 1 2 None)),
                                         (''properties'',
                                          PyDict [(''name'', PyStr []),
                                                  (''description'', PyStr [])])]])]),
          Some (2, 1))"
  by (simp add: parse_kmz_file_def namelist_def endswith_def zip_read_def parse_kml_data_def
        append_feature_def feature_dict_def mapping_def getattr_def center_of_def py_sum_def)

text \<open>
  Claim C8, amended. In a valid archive, the member selected is the first one, in
  directory order, whose name ends in \<^verbatim>\<open>.kml\<close>; when no later member has the same
  name, \<^verbatim>\<open>parse_kmz_file\<close> parses exactly that member's decompressed bytes (and
  returns \<^verbatim>\<open>(None, None)\<close> when they cannot be read). Later members with other names
  are ignored, and several matching members are not an error.
\<close>

theorem first_kml_name_is_parsed:
  assumes "Z d = Inr (pre @ (name, content) # post)"
    and "filter is_kml_name (map fst pre) = []"
    and "is_kml_name name"
    and "name \<notin> set (map fst post)"
  shows "parse_kmz_file Z E K d =
           (case content of Inl e \<Rightarrow> (None, None) | Inr kml_data \<Rightarrow> parse_kml_data E K kml_data)"
proof -
  have "find_kml (namelist (pre @ (name, content) # post)) = Some name"
    using assms(2,3) find_kml_first [of "map fst pre" name "map fst post"]
    by (simp add: namelist_def)
  moreover have "zip_read (pre @ (name, content) # post) name = content"
    using assms(4) by (rule zip_read_unique)
  ultimately show ?thesis
    using assms(1) is_kml_name_nonempty [OF assms(3)]
    by (simp add: parse_kmz_file_def)
qed

text \<open>An archive whose directory lists \<^verbatim>\<open>readme.txt\<close>, \<^verbatim>\<open>b.kml\<close>, \<^verbatim>\<open>a.kml\<close> in
  that order: \<^verbatim>\<open>b.kml\<close> is parsed, not the first name in sorted order.\<close>

theorem first_kml_name_is_parsed_witness:
  "parse_kmz_file
     (\<lambda>b. Inr [(''readme.txt'', Inr ''text''), (''b.kml'', Inr ''B''), (''a.kml'', Inr ''A'')])
     (\<lambda>b. Inr ())
     (\<lambda>b. if b = ''B''
           then Inr [Entry None None None
                       (Some [Entry (Some (PyGeom (Point 1 2 None))) None None None])]
           else Inr [])
     ''PK''
   = parse_kml_data (\<lambda>b. Inr ())
       (\<lambda>b. if b = ''B''
             then Inr [Entry None None None
                         (Some [Entry (Some (PyGeom (Point 1 2 None))) None None None])]
             else Inr [])
       ''B''"
  using first_kml_name_is_parsed
    [of "\<lambda>b. Inr [(''readme.txt'', Inr ''text''), (''b.kml'', Inr ''B''), (''a.kml'', Inr ''A'')]"
        "''PK''" "[(''readme.txt'', Inr ''text'')]" "''b.kml''" "Inr ''B''"
        "[(''a.kml'', Inr ''A'')]"]
  by (simp add: is_kml_name_def endswith_def)

section \<open>The distance sum\<close>

lemma is_linear_iff: "(geom_type g \<in> set [''LineString'', ''MultiLineString'']) = is_linear g"
  by (simp add: is_linear_def)





















lemma py_round_zero: "py_round (Fin 0) n = Fin 0"
  by (simp add: round_half_even_def)



section \<open>Failure of the distance computation\<close>

lemma distance_loop_fails:
  "get_item f ''geometry'' = Inr gv \<Longrightarrow> shape gv = Inr g \<Longrightarrow> is_linear g
     \<Longrightarrow> transform proj g = Inl e
     \<Longrightarrow> \<exists>e'. distance_loop proj (pre @ f # post) t = Inl e'"
proof (induction pre arbitrary: t)
  case Nil
  then show ?case by (simp add: is_linear_iff del: set_simps)
next
  case (Cons p pre)
  from Cons.IH [OF Cons.prems] show ?case
    by (simp add: is_linear_iff del: set_simps split: sum.splits)
qed

lemma parse_kml_data_truthy: "parse_kml_data E K d = (Some gj, c) \<Longrightarrow> truthy gj"
  by (auto simp: parse_kml_data_def split: sum.splits)

lemma parse_kmz_file_truthy: "parse_kmz_file Z E K d = (Some gj, c) \<Longrightarrow> truthy gj"
  by (auto simp: parse_kmz_file_def parse_kml_data_truthy split: sum.splits option.splits if_splits)

text \<open>An exception in the loop, in particular an exception of the projection at a linear
  feature wherever it stands in the list, gives \<^verbatim>\<open>None\<close>; the view then stores the
  FeatureCollection and the center of the parse and leaves the distance field as it
  was.\<close>

lemma distance_exception_gives_none:
  "(features_of gj = Inr feats \<and> distance_loop proj feats (Fin 0) = Inl e \<longrightarrow>
      calculate_path_distance proj gj = None)
   \<and> (features_of gj = Inr (pre @ f # post) \<and> get_item f ''geometry'' = Inr gv
        \<and> shape gv = Inr g \<and> is_linear g \<and> transform proj g = Inl e \<longrightarrow>
      calculate_path_distance proj gj = None)
   \<and> (parse_kmz_file Z E K data = (Some gj, Some c) \<and> calculate_path_distance proj gj = None \<longrightarrow>
      post_kmz Z E K proj inst data =
        inst\<lparr>geojson_data := Some gj, map_center_lat := Some (fst c),
             map_center_lon := Some (snd c)\<rparr>)"
proof (intro conjI impI)
  assume "features_of gj = Inr feats \<and> distance_loop proj feats (Fin 0) = Inl e"
  then show "calculate_path_distance proj gj = None"
    by (auto simp: calculate_path_distance_def features_of_def split: sum.splits)
next
  assume a: "features_of gj = Inr (pre @ f # post) \<and> get_item f ''geometry'' = Inr gv
        \<and> shape gv = Inr g \<and> is_linear g \<and> transform proj g = Inl e"
  then obtain e' where "distance_loop proj (pre @ f # post) (Fin 0) = Inl e'"
    using distance_loop_fails [of f gv g proj e pre post "Fin 0"] by blast
  with a show "calculate_path_distance proj gj = None"
    by (auto simp: calculate_path_distance_def features_of_def split: sum.splits)
next
  assume a: "parse_kmz_file Z E K data = (Some gj, Some c) \<and> calculate_path_distance proj gj = None"
  then have "truthy gj" using parse_kmz_file_truthy by blast
  with a show "post_kmz Z E K proj inst data =
        inst\<lparr>geojson_data := Some gj, map_center_lat := Some (fst c),
             map_center_lon := Some (snd c)\<rparr>"
    by (simp add: post_kmz_def)
qed

text \<open>
  Claim C7. The claim says that a failed reprojection makes
  \<^verbatim>\<open>calculate_path_distance\<close> return \<^verbatim>\<open>None\<close>, as the docstring does ("or None if
  calculation fails"). The transformer of the source raises nothing for a coordinate it
  cannot project and returns \<^verbatim>\<open>inf\<close> for it. For a LineString from (0, 0) to
  (0, 95), whose second latitude is out of range, the segment length is \<^verbatim>\<open>inf\<close>, the
  function returns \<^verbatim>\<open>inf\<close> and not \<^verbatim>\<open>None\<close>, and the view stores \<^verbatim>\<open>inf\<close> as the
  distance of the path.
\<close>

theorem unprojectable_coordinate_gives_inf:
  "calculate_path_distance
     (\<lambda>c. if \<bar>fst (snd c)\<bar> \<le> 90
           then Inr (Fin (1000 * fst c), Fin (1000 * fst (snd c)), None)
           else Inr (PInf, PInf, None))
     (PyDict [(''type'', PyStr ''FeatureCollection''),
              (''features'',
               PyList [PyDict [(''type'', PyStr ''Feature''),
                               (''geometry'', PyGeom (LineString [(0, 0, None), (0, 95, None)])),
                               (''properties'',
                                PyDict [(''name'', PyStr ''Route''),
                                        (''description'', PyStr ''path'')])]])])
     = Some PInf
   \<and> post_kmz (\<lambda>b. Inr [(''doc.kml'', Inr ''<kml/>'')]) (\<lambda>b. Inr ())
        (\<lambda>b. Inr [Entry None None None
                 (Some [Entry (Some (PyGeom (LineString [(0, 0, None), (0, 95, None)])))
                          (Some (PyStr ''Route'')) (Some (PyStr ''path'')) None])])
        (\<lambda>c. if \<bar>fst (snd c)\<bar> \<le> 90
              then Inr (Fin (1000 * fst c), Fin (1000 * fst (snd c)), None)
              else Inr (PInf, PInf, None))
        \<lparr>geojson_data = None, map_center_lat = None, map_center_lon = None,
         path_distance_km = None\<rparr>
        ''PK''
       = \<lparr>geojson_data =
            Some (PyDict [(''type'', PyStr ''FeatureCollection''),
                    (''features'',
                     PyList [PyDict [(''type'', PyStr ''Feature''),
                                     (''geometry'',
                                      PyGeom (LineString [(0, 0, None), (0, 95, None)])),
                                     (''properties'',
                                      PyDict [(''name'', PyStr ''Route''),
                                              (''description'', PyStr ''path'')])]])]),
          map_center_lat = Some (95 / 2), map_center_lon = Some 0, path_distance_km = Some PInf\<rparr>"
proof -
  let ?P = "\<lambda>c::coord. (if \<bar>fst (snd c)\<bar> \<le> 90
              then Inr (Fin (1000 * fst c), Fin (1000 * fst (snd c)), None)
              else Inr (PInf, PInf, None)) :: error + pcoord"
  let ?line = "LineString [(0, 0, None), (0, 95, None)] :: geometry"
  let ?f = "PyDict [(''type'', PyStr ''Feature''), (''geometry'', PyGeom ?line),
                    (''properties'',
                       PyDict [(''name'', PyStr ''Route''), (''description'', PyStr ''path'')])]"
  let ?gj = "PyDict [(''type'', PyStr ''FeatureCollection''), (''features'', PyList [?f])]"
  let ?Z = "\<lambda>b::bytes. (Inr [(''doc.kml'', Inr ''<kml/>'')] :: error + zip_archive)"
  let ?E = "\<lambda>b::bytes. (Inr () :: error + unit)"
  let ?K = "\<lambda>b::bytes. (Inr [Entry None None None
                 (Some [Entry (Some (PyGeom ?line))
                          (Some (PyStr ''Route'')) (Some (PyStr ''path'')) None])]
               :: error + entry list)"
  have d: "calculate_path_distance ?P ?gj = Some PInf"
    by (simp add: calculate_path_distance_def segment_length_def fl_sub_def)
  have p: "parse_kmz_file ?Z ?E ?K ''PK'' = (Some ?gj, Some (95 / 2, 0))"
    by (simp add: parse_kmz_file_def namelist_def endswith_def zip_read_def parse_kml_data_def
          append_feature_def feature_dict_def mapping_def getattr_def center_of_def py_sum_def)
  show ?thesis
    by (simp add: d p post_kmz_def)
qed

section \<open>A mapping without features\<close>

text \<open>
  Claim C10. For a mapping without the key \<^verbatim>\<open>features\<close> (the empty dict is one, a
  bare geometry mapping is another), \<^verbatim>\<open>calculate_path_distance\<close> does not fail: the
  feature list defaults to the empty list and the result is 0.
\<close>

theorem missing_features_key_gives_zero:
  "(map_of kvs ''features'' = None \<longrightarrow> calculate_path_distance proj (PyDict kvs) = Some (Fin 0))
   \<and> calculate_path_distance proj (PyGeom g) = Some (Fin 0)"
  by (simp add: calculate_path_distance_def round_half_even_def)

text \<open>The empty dict and a dict with the key \<^verbatim>\<open>type\<close> only; the projection is never
  called.\<close>

theorem missing_features_key_gives_zero_witness:
  "calculate_path_distance (\<lambda>c. Inl ProjError) (PyDict []) = Some (Fin 0)
   \<and> calculate_path_distance (\<lambda>c. Inl ProjError)
         (PyDict [(''type'', PyStr ''FeatureCollection'')]) = Some (Fin 0)"
  using missing_features_key_gives_zero [of "[]" "\<lambda>c. Inl ProjError"]
        missing_features_key_gives_zero
          [of "[(''type'', PyStr ''FeatureCollection'')]" "\<lambda>c. Inl ProjError"]
  by simp

end
